theory Spec2Isabelle
  imports Complex_Main
begin

section \<open>Python values\<close>

text \<open>
  The records of the program are Python dictionaries from field names to arbitrary
  values. The values that occur are \<open>None\<close>, integers, floats, strings and lists; they
  are the constructors of \<open>pyval\<close>.

  A Python float is modelled as an exact rational, or one of the three special values.
  Arithmetic on \<open>Fin\<close> is exact: rounding to binary64, overflow to infinity and the sign of
  zero are not modelled. Every number in the concrete examples below is a dyadic rational
  of a few bits, for which binary64 arithmetic is exact as well.
\<close>

datatype pyfloat = Fin rat | PInf | NInf | NaN

datatype pyval =
    PyNone
  | PyInt int
  | PyFloat pyfloat
  | PyStr string
  | PyList "pyval list"

type_synonym pydict = "string \<rightharpoonup> pyval"

datatype exn =
    ValueError
  | TypeError
  | KeyError
  | IndexError
  | ZeroDivisionError
  | OverflowError
  | OSError
  | cv2_error

subsection \<open>Float arithmetic\<close>

fun fsign :: "pyfloat \<Rightarrow> int" where
  "fsign (Fin r) = (if r < 0 then -1 else if r = 0 then 0 else 1)"
| "fsign PInf = 1"
| "fsign NInf = -1"
| "fsign NaN = 0"

definition finfinite :: "pyfloat \<Rightarrow> bool" where
  "finfinite x = (x = PInf \<or> x = NInf)"

text \<open>\<open>a * b\<close> on floats: a product with NaN, or of an infinity with zero, is NaN.\<close>

definition fmul :: "pyfloat \<Rightarrow> pyfloat \<Rightarrow> pyfloat" where
  "fmul a b =
     (case (a, b) of
        (Fin x, Fin y) \<Rightarrow> Fin (x * y)
      | _ \<Rightarrow>
        if a = NaN \<or> b = NaN then NaN
        else if fsign a * fsign b = 0 then NaN
        else if fsign a * fsign b > 0 then PInf else NInf)"

text \<open>\<open>a + b\<close> on floats: a sum with NaN, or of the two opposite infinities, is NaN.\<close>

definition fadd :: "pyfloat \<Rightarrow> pyfloat \<Rightarrow> pyfloat" where
  "fadd a b =
     (case (a, b) of
        (Fin x, Fin y) \<Rightarrow> Fin (x + y)
      | _ \<Rightarrow>
        if a = NaN \<or> b = NaN then NaN
        else if finfinite a \<and> finfinite b \<and> a \<noteq> b then NaN
        else if finfinite a then a else b)"

text \<open>\<open>a <= b\<close> and \<open>a < b\<close> on floats: every comparison with NaN is false.\<close>

fun fle :: "pyfloat \<Rightarrow> pyfloat \<Rightarrow> bool" where
  "fle NaN _ = False"
| "fle _ NaN = False"
| "fle NInf _ = True"
| "fle _ PInf = True"
| "fle (Fin x) (Fin y) = (x \<le> y)"
| "fle PInf _ = False"
| "fle _ NInf = False"

fun flt :: "pyfloat \<Rightarrow> pyfloat \<Rightarrow> bool" where
  "flt NaN _ = False"
| "flt _ NaN = False"
| "flt PInf _ = False"
| "flt _ NInf = False"
| "flt (Fin x) (Fin y) = (x < y)"
| "flt NInf _ = True"
| "flt _ PInf = True"

text \<open>\<open>float(i)\<close> for an integer, as mixed arithmetic applies it to an int operand.\<close>

definition float_of_int :: "int \<Rightarrow> pyfloat" where
  "float_of_int i = Fin (of_int i)"

text \<open>\<open>a / b\<close> on integers (true division).\<close>

definition int_truediv :: "int \<Rightarrow> int \<Rightarrow> exn + pyfloat" where
  "int_truediv a b = (if b = 0 then Inl ZeroDivisionError else Inr (Fin (of_int a / of_int b)))"

text \<open>\<open>min(a, b)\<close>: the second argument is taken only when it is strictly smaller.\<close>

definition fmin :: "pyfloat \<Rightarrow> pyfloat \<Rightarrow> pyfloat" where
  "fmin a b = (if flt b a then b else a)"

text \<open>\<open>int(x)\<close> on a float truncates towards zero; it raises on an infinity or NaN.\<close>

fun int_of_float :: "pyfloat \<Rightarrow> exn + int" where
  "int_of_float (Fin r) = Inr (if 0 \<le> r then \<lfloor>r\<rfloor> else \<lceil>r\<rceil>)"
| "int_of_float PInf = Inl OverflowError"
| "int_of_float NInf = Inl OverflowError"
| "int_of_float NaN = Inl ValueError"

section \<open>Logging\<close>

datatype level = DEBUG | WARNING | ERROR

datatype logmsg =
    Invalid_scale_factors pyfloat pyfloat
  | Object_missing_bounding_box nat
  | Error_scaling_object nat exn
  | Invalid_input_image
  | Error_during_image_stretching exn
  | Error_during_letterboxing exn
  | Loading_labels_from string
  | File_not_found string
  | Found_lines_in_file nat
  | Line_has_only_fields nat nat
  | Error_parsing_line nat exn
  | Error_reading_file exn
  | Successfully_loaded_objects nat
  | Writing_objects_to nat string
  | Object_missing_fields nat "string list"
  | Bounding_box_must_have_4_values nat
  | Dimensions_must_have_3_values nat
  | Location_must_have_3_values nat
  | Object_has_invalid_data_structure nat
  | Error_writing_object nat exn
  | Successfully_wrote_objects nat
  | Error_writing_file exn

type_synonym log = "(level \<times> logmsg) list"

section \<open>transform.py\<close>

subsection \<open>\<open>scale_objects\<close>\<close>

text \<open>
  \<open>x1, y1, x2, y2 = v\<close>: a list of four elements unpacks; a list or string of another
  length raises ValueError; a string of four characters unpacks into four one-character
  strings; a value that is not iterable raises TypeError.
\<close>

fun unpack4 :: "pyval \<Rightarrow> exn + (pyval \<times> pyval \<times> pyval \<times> pyval)" where
  "unpack4 (PyList [a, b, c, d]) = Inr (a, b, c, d)"
| "unpack4 (PyList _) = Inl ValueError"
| "unpack4 (PyStr [a, b, c, d]) = Inr (PyStr [a], PyStr [b], PyStr [c], PyStr [d])"
| "unpack4 (PyStr _) = Inl ValueError"
| "unpack4 _ = Inl TypeError"

text \<open>
  \<open>x * scale + offset\<close> with a float scale and offset: an int operand is converted to
  float, a float is used as it is, and any other operand raises TypeError.
\<close>

fun affine :: "pyval \<Rightarrow> pyfloat \<Rightarrow> pyfloat \<Rightarrow> exn + pyval" where
  "affine (PyInt i) s off = Inr (PyFloat (fadd (fmul (float_of_int i) s) off))"
| "affine (PyFloat x) s off = Inr (PyFloat (fadd (fmul x s) off))"
| "affine _ s off = Inl TypeError"

text \<open>The body of the \<open>try\<close> block for one record whose \<open>bounding_box\<close> value is \<open>v\<close>.\<close>

definition scale_obj ::
  "pydict \<Rightarrow> pyval \<Rightarrow> pyfloat \<Rightarrow> pyfloat \<Rightarrow> pyfloat \<Rightarrow> pyfloat \<Rightarrow> exn + pydict" where
  "scale_obj obj v scale_x scale_y offset_x offset_y =
     (case unpack4 v of
        Inl e \<Rightarrow> Inl e
      | Inr (x1, y1, x2, y2) \<Rightarrow>
        (case affine x1 scale_x offset_x of
           Inl e \<Rightarrow> Inl e
         | Inr a \<Rightarrow>
           (case affine y1 scale_y offset_y of
              Inl e \<Rightarrow> Inl e
            | Inr b \<Rightarrow>
              (case affine x2 scale_x offset_x of
                 Inl e \<Rightarrow> Inl e
               | Inr c \<Rightarrow>
                 (case affine y2 scale_y offset_y of
                    Inl e \<Rightarrow> Inl e
                  | Inr d \<Rightarrow> Inr (obj(''bounding_box'' \<mapsto> PyList [a, b, c, d])))))))"

text \<open>
  Every function returns its outcome together with the log it has written: \<open>Inr\<close> the
  returned value, \<open>Inl\<close> an exception that leaves the function.
\<close>

type_synonym 'a result = "(exn + 'a) \<times> log"

text \<open>
  The \<open>for\<close> loop of \<open>scale_objects\<close>, with the index \<open>i\<close>, the list \<open>scaled_objects\<close>
  built so far and the log. The handler catches ValueError and TypeError only; any
  other exception leaves the function.
\<close>

fun scale_loop ::
  "pyfloat \<Rightarrow> pyfloat \<Rightarrow> pyfloat \<Rightarrow> pyfloat \<Rightarrow> nat \<Rightarrow> pydict list \<Rightarrow> pydict list \<Rightarrow> log
     \<Rightarrow> pydict list result" where
  "scale_loop sx sy ox oy i [] scaled_objects lg = (Inr scaled_objects, lg)"
| "scale_loop sx sy ox oy i (obj # objs) scaled_objects lg =
     (case obj ''bounding_box'' of
        None \<Rightarrow>
          scale_loop sx sy ox oy (Suc i) objs scaled_objects
            (lg @ [(WARNING, Object_missing_bounding_box i)])
      | Some v \<Rightarrow>
          (case scale_obj obj v sx sy ox oy of
             Inr scaled_obj \<Rightarrow>
               scale_loop sx sy ox oy (Suc i) objs (scaled_objects @ [scaled_obj]) lg
           | Inl e \<Rightarrow>
               if e = ValueError \<or> e = TypeError
               then scale_loop sx sy ox oy (Suc i) objs scaled_objects
                      (lg @ [(WARNING, Error_scaling_object i e)])
               else (Inl e, lg)))"

definition scale_objects ::
  "pydict list \<Rightarrow> pyfloat \<Rightarrow> pyfloat \<Rightarrow> pyfloat \<Rightarrow> pyfloat \<Rightarrow> pydict list result" where
  "scale_objects objects scale_x scale_y offset_x offset_y =
     (if fle scale_x (Fin 0) \<or> fle scale_y (Fin 0)
      then (Inr objects, [(WARNING, Invalid_scale_factors scale_x scale_y)])
      else scale_loop scale_x scale_y offset_x offset_y 0 objects [] [])"

subsection \<open>Images and the image library\<close>

text \<open>
  An array is its shape and its elements, addressed by index. \<open>img.size\<close> is the product of
  the shape. The image argument may be \<open>None\<close>.
\<close>

record ndarray =
  shape :: "nat list"
  pixel :: "nat list \<Rightarrow> nat"

definition nd_size :: "ndarray \<Rightarrow> nat" where
  "nd_size a = prod_list (shape a)"

text \<open>
  The operations of OpenCV and NumPy that the transforms call are parameters of the
  model; each returns the new array or raises:
  \<^item> \<open>cv2_resize img (width, height) interpolation\<close> is \<open>cv2.resize\<close>;
  \<^item> \<open>np_full shape fill\<close> is \<open>np.full(shape, fill, dtype=np.uint8)\<close>;
  \<^item> \<open>set_region canvas (r0, r1) (c0, c1) src\<close> is \<open>canvas[r0:r1, c0:c1] = src\<close>.
\<close>

record backend =
  cv2_resize :: "ndarray \<Rightarrow> int \<times> int \<Rightarrow> int \<Rightarrow> exn + ndarray"
  np_full :: "int list \<Rightarrow> int list \<Rightarrow> exn + ndarray"
  set_region :: "ndarray \<Rightarrow> int \<times> int \<Rightarrow> int \<times> int \<Rightarrow> ndarray \<Rightarrow> exn + ndarray"

subsection \<open>\<open>apply_stretch\<close>\<close>

text \<open>The \<open>try\<close> block of \<open>apply_stretch\<close>.\<close>

definition stretch_body ::
  "backend \<Rightarrow> ndarray \<Rightarrow> pydict list \<Rightarrow> int \<Rightarrow> int \<Rightarrow> int \<Rightarrow> pyfloat \<Rightarrow> pyfloat
     \<Rightarrow> (ndarray option \<times> pydict list) result" where
  "stretch_body B a objects new_w new_h interpolation scale_x scale_y =
     (case cv2_resize B a (new_w, new_h) interpolation of
        Inl e \<Rightarrow> (Inl e, [])
      | Inr resized_img \<Rightarrow>
        (case scale_objects objects scale_x scale_y (Fin 0) (Fin 0) of
           (Inl e, lg) \<Rightarrow> (Inl e, lg)
         | (Inr scaled_objects, lg) \<Rightarrow> (Inr (Some resized_img, scaled_objects), lg)))"

text \<open>
  \<open>h, w = img.shape[:2]\<close> raises ValueError on an array of fewer than two dimensions, and
  the two divisions stand before the \<open>try\<close>: these exceptions leave the function. An
  exception of the \<open>try\<close> block is logged and the arguments are returned.
\<close>

definition apply_stretch ::
  "backend \<Rightarrow> ndarray option \<Rightarrow> pydict list \<Rightarrow> int \<Rightarrow> int \<Rightarrow> int
     \<Rightarrow> (ndarray option \<times> pydict list) result" where
  "apply_stretch B img objects new_w new_h interpolation =
     (case img of
        None \<Rightarrow> (Inr (img, objects), [(ERROR, Invalid_input_image)])
      | Some a \<Rightarrow>
        if nd_size a = 0 then (Inr (img, objects), [(ERROR, Invalid_input_image)])
        else
          (case shape a of
             h # w # _ \<Rightarrow>
               (case int_truediv new_w (int w) of
                  Inl e \<Rightarrow> (Inl e, [])
                | Inr scale_x \<Rightarrow>
                  (case int_truediv new_h (int h) of
                     Inl e \<Rightarrow> (Inl e, [])
                   | Inr scale_y \<Rightarrow>
                     (case stretch_body B a objects new_w new_h interpolation scale_x scale_y of
                        (Inr r, lg) \<Rightarrow> (Inr r, lg)
                      | (Inl e, lg) \<Rightarrow>
                          (Inr (img, objects),
                           lg @ [(ERROR, Error_during_image_stretching e)]))))
           | _ \<Rightarrow> (Inl ValueError, [])))"

subsection \<open>\<open>apply_letterbox\<close>\<close>

text \<open>The \<open>try\<close> block of \<open>apply_letterbox\<close>.\<close>

definition letterbox_body ::
  "backend \<Rightarrow> ndarray \<Rightarrow> pydict list \<Rightarrow> int \<Rightarrow> int \<Rightarrow> int \<times> int \<times> int \<Rightarrow> int
     \<Rightarrow> pyfloat \<Rightarrow> int \<Rightarrow> int \<Rightarrow> int \<Rightarrow> int \<Rightarrow> (ndarray option \<times> pydict list) result" where
  "letterbox_body B a objects new_w new_h color interpolation scale scaled_w scaled_h pad_x pad_y =
     (case cv2_resize B a (scaled_w, scaled_h) interpolation of
        Inl e \<Rightarrow> (Inl e, [])
      | Inr img_resized \<Rightarrow>
        (case (if length (shape a) = 3
               then np_full B [new_h, new_w, 3] [fst color, fst (snd color), snd (snd color)]
               else np_full B [new_h, new_w] [fst color]) of
           Inl e \<Rightarrow> (Inl e, [])
         | Inr canvas \<Rightarrow>
           (case set_region B canvas (pad_y, pad_y + scaled_h) (pad_x, pad_x + scaled_w)
                   img_resized of
              Inl e \<Rightarrow> (Inl e, [])
            | Inr canvas' \<Rightarrow>
              (case scale_objects objects scale scale (float_of_int pad_x) (float_of_int pad_y) of
                 (Inl e, lg) \<Rightarrow> (Inl e, lg)
               | (Inr scaled_objects, lg) \<Rightarrow> (Inr (Some canvas', scaled_objects), lg)))))"

text \<open>
  The plan is computed before the \<open>try\<close>: \<open>scale = min(new_w / w, new_h / h)\<close>,
  \<open>scaled_w = int(w * scale)\<close>, \<open>scaled_h = int(h * scale)\<close>, and the paddings by floor
  division.
\<close>

definition apply_letterbox ::
  "backend \<Rightarrow> ndarray option \<Rightarrow> pydict list \<Rightarrow> int \<Rightarrow> int \<Rightarrow> int \<times> int \<times> int \<Rightarrow> int
     \<Rightarrow> (ndarray option \<times> pydict list) result" where
  "apply_letterbox B img objects new_w new_h color interpolation =
     (case img of
        None \<Rightarrow> (Inr (img, objects), [(ERROR, Invalid_input_image)])
      | Some a \<Rightarrow>
        if nd_size a = 0 then (Inr (img, objects), [(ERROR, Invalid_input_image)])
        else
          (case shape a of
             h # w # _ \<Rightarrow>
               (case int_truediv new_w (int w) of
                  Inl e \<Rightarrow> (Inl e, [])
                | Inr rx \<Rightarrow>
                  (case int_truediv new_h (int h) of
                     Inl e \<Rightarrow> (Inl e, [])
                   | Inr ry \<Rightarrow>
                     (let scale = fmin rx ry in
                      case int_of_float (fmul (float_of_int (int w)) scale) of
                        Inl e \<Rightarrow> (Inl e, [])
                      | Inr scaled_w \<Rightarrow>
                        (case int_of_float (fmul (float_of_int (int h)) scale) of
                           Inl e \<Rightarrow> (Inl e, [])
                         | Inr scaled_h \<Rightarrow>
                           (let pad_x = (new_w - scaled_w) div 2;
                                pad_y = (new_h - scaled_h) div 2 in
                            case letterbox_body B a objects new_w new_h color interpolation
                                   scale scaled_w scaled_h pad_x pad_y of
                              (Inr r, lg) \<Rightarrow> (Inr r, lg)
                            | (Inl e, lg) \<Rightarrow>
                                (Inr (img, objects),
                                 lg @ [(ERROR, Error_during_letterboxing e)]))))))
           | _ \<Rightarrow> (Inl ValueError, [])))"

section \<open>Python strings\<close>

text \<open>
  A string is a list of characters; a character stands for the code point of its number
  (0 to 255). \<open>is_space\<close> is \<open>str.isspace\<close> on these code points, \<open>is_linebreak\<close> the line
  boundaries of \<open>str.splitlines\<close>.
\<close>

definition is_space :: "char \<Rightarrow> bool" where
  "is_space c =
     (c \<in> set [CHR 0x09, CHR 0x0A, CHR 0x0B, CHR 0x0C, CHR 0x0D, CHR 0x1C, CHR 0x1D, CHR 0x1E,
                CHR 0x1F, CHR 0x20, CHR 0x85, CHR 0xA0])"

definition is_linebreak :: "char \<Rightarrow> bool" where
  "is_linebreak c =
     (c \<in> set [CHR 0x0A, CHR 0x0B, CHR 0x0C, CHR 0x0D, CHR 0x1C, CHR 0x1D, CHR 0x1E, CHR 0x85])"

text \<open>
  \<open>text.splitlines()\<close>: \<open>cur\<close> is the line read so far. A carriage return followed by a
  line feed is one boundary. A final line without a boundary is a line; an empty one is not.
\<close>

fun splitlines_from :: "string \<Rightarrow> string \<Rightarrow> string list" where
  "splitlines_from cur [] = (if cur = [] then [] else [cur])"
| "splitlines_from cur [c] = (if is_linebreak c then [cur] else [cur @ [c]])"
| "splitlines_from cur (c # d # cs) =
     (if c = CHR 0x0D \<and> d = CHR 0x0A then cur # splitlines_from [] cs
      else if is_linebreak c then cur # splitlines_from [] (d # cs)
      else splitlines_from (cur @ [c]) (d # cs))"

definition str_splitlines :: "string \<Rightarrow> string list" where
  "str_splitlines s = splitlines_from [] s"

text \<open>\<open>s.strip()\<close> removes the whitespace at both ends.\<close>

definition str_strip :: "string \<Rightarrow> string" where
  "str_strip s = rev (dropWhile is_space (rev (dropWhile is_space s)))"

text \<open>\<open>s.split()\<close>: the maximal runs of characters that are not whitespace.\<close>

fun split_from :: "string \<Rightarrow> string \<Rightarrow> string list" where
  "split_from cur [] = (if cur = [] then [] else [cur])"
| "split_from cur (c # cs) =
     (if is_space c then (if cur = [] then split_from [] cs else cur # split_from [] cs)
      else split_from (cur @ [c]) cs)"

definition str_split :: "string \<Rightarrow> string list" where
  "str_split s = split_from [] s"


subsection \<open>Numbers from strings\<close>

definition is_digit :: "char \<Rightarrow> bool" where
  "is_digit c = (c \<in> set ''0123456789'')"

definition digit_val :: "char \<Rightarrow> nat" where
  "digit_val c = of_char c - 48"

definition nat_of_digits :: "string \<Rightarrow> nat" where
  "nat_of_digits ds = foldl (\<lambda>n c. 10 * n + digit_val c) 0 ds"

text \<open>
  An underscore may stand between two digits only: \<open>prev\<close> is the character before.
  This is the check of \<open>float\<close> and \<open>int\<close> on strings that contain underscores.
\<close>

fun underscores_ok :: "char option \<Rightarrow> string \<Rightarrow> bool" where
  "underscores_ok prev [] = (prev \<noteq> Some CHR ''_'')"
| "underscores_ok prev (c # cs) =
     (if c = CHR ''_''
      then (case prev of Some p \<Rightarrow> is_digit p \<and> underscores_ok (Some c) cs | None \<Rightarrow> False)
      else (prev = Some CHR ''_'' \<longrightarrow> is_digit c) \<and> underscores_ok (Some c) cs)"

definition strip_sign :: "string \<Rightarrow> bool \<times> string" where
  "strip_sign s =
     (case s of
        c # cs \<Rightarrow> if c = CHR ''-'' then (True, cs) else if c = CHR ''+'' then (False, cs)
                  else (False, s)
      | [] \<Rightarrow> (False, s))"

definition lower :: "char \<Rightarrow> char" where
  "lower c = (if 65 \<le> (of_char c :: nat) \<and> (of_char c :: nat) \<le> 90
              then char_of (of_char c + 32 :: nat) else c)"

text \<open>
  The exponent of a decimal literal: empty, or \<open>e\<close> or \<open>E\<close>, an optional sign and at least
  one digit.
\<close>

definition parse_exponent :: "string \<Rightarrow> int option" where
  "parse_exponent s =
     (case s of
        [] \<Rightarrow> Some 0
      | c # cs \<Rightarrow>
          if c = CHR ''e'' \<or> c = CHR ''E'' then
            (case strip_sign cs of
               (neg, ds) \<Rightarrow>
                 if ds \<noteq> [] \<and> list_all is_digit ds
                 then Some (if neg then - int (nat_of_digits ds) else int (nat_of_digits ds))
                 else None)
          else None)"

text \<open>
  An unsigned decimal literal: digits, an optional point and digits, with a digit on at
  least one side, and an optional exponent. Its value is exact.
\<close>

definition parse_decimal :: "string \<Rightarrow> rat option" where
  "parse_decimal s =
     (let ip = takeWhile is_digit s;
          r1 = dropWhile is_digit s;
          has_point = (r1 \<noteq> [] \<and> hd r1 = CHR ''.'');
          fp = (if has_point then takeWhile is_digit (tl r1) else []);
          r2 = (if has_point then dropWhile is_digit (tl r1) else r1)
      in if ip = [] \<and> fp = [] then None
         else (case parse_exponent r2 of
                 None \<Rightarrow> None
               | Some e \<Rightarrow>
                   Some (of_nat (nat_of_digits (ip @ fp)) / 10 ^ length fp * 10 powi e)))"

text \<open>
  \<open>float(s)\<close> on a string: surrounding whitespace is ignored, underscores are checked and
  removed, then comes an optional sign and \<open>inf\<close>, \<open>infinity\<close>, \<open>nan\<close> (in any case) or a
  decimal literal. Anything else raises ValueError.
\<close>

definition py_float :: "string \<Rightarrow> exn + pyfloat" where
  "py_float s0 =
     (let s = str_strip s0 in
      if \<not> underscores_ok None s then Inl ValueError
      else
        (case strip_sign (filter (\<lambda>c. c \<noteq> CHR ''_'') s) of
           (neg, body) \<Rightarrow>
             if map lower body = ''inf'' \<or> map lower body = ''infinity''
             then Inr (if neg then NInf else PInf)
             else if map lower body = ''nan'' then Inr NaN
             else (case parse_decimal body of
                     None \<Rightarrow> Inl ValueError
                   | Some r \<Rightarrow> Inr (Fin (if neg then - r else r)))))"

text \<open>
  \<open>int(s)\<close> on a string, base ten: surrounding whitespace is ignored; an optional sign and
  digits, with single underscores between digits. Anything else raises ValueError.
\<close>

definition py_int :: "string \<Rightarrow> exn + int" where
  "py_int s0 =
     (let s = str_strip s0 in
      case strip_sign s of
        (neg, body) \<Rightarrow>
          if \<not> underscores_ok None body then Inl ValueError
          else
            (let ds = filter (\<lambda>c. c \<noteq> CHR ''_'') body in
             if ds \<noteq> [] \<and> list_all is_digit ds
             then Inr (if neg then - int (nat_of_digits ds) else int (nat_of_digits ds))
             else Inl ValueError))"

subsection \<open>Numbers to strings\<close>

definition digit_char :: "nat \<Rightarrow> char" where
  "digit_char n = ''0123456789'' ! n"

text \<open>The decimal digits of a natural number, without leading zeros.\<close>

fun show_nat :: "nat \<Rightarrow> string" where
  "show_nat n = (if n < 10 then [digit_char n] else show_nat (n div 10) @ [digit_char (n mod 10)])"

declare show_nat.simps [simp del]

text \<open>\<open>str(i)\<close> on an integer.\<close>

definition show_int :: "int \<Rightarrow> string" where
  "show_int i = (if i < 0 then CHR ''-'' # show_nat (nat (- i)) else show_nat (nat i))"

text \<open>Rounding a rational that is not negative to the nearest integer, ties to even.\<close>

definition round_half_even :: "rat \<Rightarrow> nat" where
  "round_half_even q =
     (let f = nat \<lfloor>q\<rfloor>; d = q - of_nat f
      in if d < 1 / 2 then f else if 1 / 2 < d then f + 1 else if even f then f else f + 1)"








definition list_getitem :: "'a list \<Rightarrow> nat \<Rightarrow> exn + 'a" where
  "list_getitem xs i = (if i < length xs then Inr (xs ! i) else Inl IndexError)"

subsection \<open>Sequencing computations that may raise\<close>

definition bindE :: "exn + 'a \<Rightarrow> ('a \<Rightarrow> exn + 'b) \<Rightarrow> exn + 'b" where
  "bindE x f = (case x of Inl e \<Rightarrow> Inl e | Inr v \<Rightarrow> f v)"

text \<open>The values of a list of computations evaluated in order, or the first exception.\<close>

fun collect :: "(exn + 'a) list \<Rightarrow> exn + 'a list" where
  "collect [] = Inr []"
| "collect (x # xs) =
     (case x of
        Inl e \<Rightarrow> Inl e
      | Inr v \<Rightarrow> (case collect xs of Inl e \<Rightarrow> Inl e | Inr vs \<Rightarrow> Inr (v # vs)))"


section \<open>kitti.py\<close>


subsection \<open>\<open>load_kitti_labels\<close>\<close>

text \<open>
  The dictionary display of the inner \<open>try\<close>: its entries are evaluated in order, and the
  first conversion that fails raises.
\<close>

definition float_field :: "string list \<Rightarrow> nat \<Rightarrow> exn + pyval" where
  "float_field parts k = bindE (bindE (list_getitem parts k) py_float) (\<lambda>x. Inr (PyFloat x))"

definition parse_fields :: "string list \<Rightarrow> exn + pydict" where
  "parse_fields parts =
     bindE (list_getitem parts 0) (\<lambda>class_name.
     bindE (float_field parts 1) (\<lambda>truncation.
     bindE (bindE (list_getitem parts 2) py_int) (\<lambda>occlusion.
     bindE (float_field parts 3) (\<lambda>alpha.
     bindE (collect (map (float_field parts) [4, 5, 6, 7])) (\<lambda>bounding_box.
     bindE (collect (map (float_field parts) [8, 9, 10])) (\<lambda>dimensions.
     bindE (collect (map (float_field parts) [11, 12, 13])) (\<lambda>location.
     bindE (float_field parts 14) (\<lambda>rotation_y.
     bindE (if length parts > 15 then float_field parts 15 else Inr PyNone) (\<lambda>score.
     Inr [''class_name'' \<mapsto> PyStr class_name,
          ''truncation'' \<mapsto> truncation,
          ''occlusion'' \<mapsto> PyInt occlusion,
          ''alpha'' \<mapsto> alpha,
          ''bounding_box'' \<mapsto> PyList bounding_box,
          ''3d_dimensions'' \<mapsto> PyList dimensions,
          ''location'' \<mapsto> PyList location,
          ''rotation_y'' \<mapsto> rotation_y,
          ''score'' \<mapsto> score])))))))))"



subsection \<open>\<open>write_kitti_labels\<close>\<close>









section \<open>Specification-side definitions for the transforms\<close>







subsection \<open>Example inputs\<close>

text \<open>
  Concrete records and a 100 by 50 colour image for the instances below, and one instance
  of the image library: resizing fails on an empty target size, as OpenCV's does, and the
  pixel contents are left at zero.
\<close>

definition example_car :: pydict where
  "example_car =
     [''class_name'' \<mapsto> PyStr ''Car'',
      ''bounding_box'' \<mapsto>
        PyList [PyFloat (Fin 10), PyFloat (Fin 10), PyFloat (Fin 20), PyFloat (Fin 20)]]"

definition example_no_box :: pydict where
  "example_no_box = [''class_name'' \<mapsto> PyStr ''Van'']"



definition example_backend :: backend where
  "example_backend =
     \<lparr>cv2_resize = (\<lambda>a (width, height) interpolation.
        if width \<le> 0 \<or> height \<le> 0 then Inl cv2_error
        else Inr \<lparr>shape = nat height # nat width # drop 2 (shape a), pixel = (\<lambda>_. 0)\<rparr>),
      np_full = (\<lambda>sh fill.
        if list_ex (\<lambda>d. d < 0) sh then Inl ValueError
        else Inr \<lparr>shape = map nat sh, pixel = (\<lambda>_. nat (hd fill))\<rparr>),
      set_region = (\<lambda>canvas rows cols src. Inr canvas)\<rparr>"


definition example_empty_image :: ndarray where
  "example_empty_image = \<lparr>shape = [0, 100, 3], pixel = (\<lambda>_. 0)\<rparr>"

section \<open>Specification-side definitions for the label files\<close>

text \<open>
  What \<open>load_kitti_labels\<close> makes of one line: the record, or nothing when the line is
  blank, has fewer than 15 tokens or holds a token that does not convert.
\<close>

definition parse_line :: "string \<Rightarrow> pydict option" where
  "parse_line line =
     (let parts = str_split (str_strip line) in
      if length parts < 15 then None
      else (case parse_fields parts of Inr obj \<Rightarrow> Some obj | Inl e \<Rightarrow> None))"










subsection \<open>Example label file\<close>

text \<open>
  A file of 20 lines in which line 5 has 10 tokens and line 12 has the alpha field \<open>abc\<close>;
  the other 18 lines are the same well-formed line, which parses to \<open>example_record\<close>.
\<close>

definition example_good_line :: string where
  "example_good_line = ''Car 0.00 0 -1.57 10.0 10.0 20.0 20.0 1.5 1.6 3.9 1.0 2.0 30.0 1.57''"

definition example_short_line :: string where
  "example_short_line = ''Car 0.00 0 -1.57 10.0 10.0 20.0 20.0 1.5 1.6''"

definition example_bad_alpha_line :: string where
  "example_bad_alpha_line = ''Car 0.00 0 abc 10.0 10.0 20.0 20.0 1.5 1.6 3.9 1.0 2.0 30.0 1.57''"

definition example_lines :: "string list" where
  "example_lines =
     replicate 4 example_good_line @ [example_short_line] @ replicate 6 example_good_line @
     [example_bad_alpha_line] @ replicate 8 example_good_line"

definition example_file :: string where
  "example_file = concat (map (\<lambda>line. line @ [CHR 0x0A]) example_lines)"




section \<open>Properties of \<open>scale_objects\<close>\<close>












lemma map_filter_append:
  "List.map_filter f (xs @ ys) = List.map_filter f xs @ List.map_filter f ys"
  by (simp add: List.map_filter_def)






text \<open>
  Claim C7. For every record list and offsets, if \<open>scale_x <= 0\<close> or \<open>scale_y <= 0\<close> then
  \<open>scale_objects\<close> returns the entire input list unmodified (no record scaled, none dropped)
  and logs one warning.
\<close>

theorem scale_objects_invalid_scale:
  assumes "fle scale_x (Fin 0) \<or> fle scale_y (Fin 0)"
  shows "scale_objects objects scale_x scale_y offset_x offset_y =
           (Inr objects, [(WARNING, Invalid_scale_factors scale_x scale_y)])"
  using assms by (simp add: scale_objects_def)

theorem scale_objects_invalid_scale_witness:
  "fle (Fin 0) (Fin 0) \<and>
   scale_objects [example_car, example_no_box] (Fin 0) (Fin 2) (Fin 0) (Fin 0) =
     (Inr [example_car, example_no_box], [(WARNING, Invalid_scale_factors (Fin 0) (Fin 2))])"
  using scale_objects_invalid_scale [of "Fin 0" "Fin 2" "[example_car, example_no_box]" "Fin 0" "Fin 0"]
  by simp



section \<open>Properties of the transforms\<close>




text \<open>
  Claim C8. For every record list and target size, \<open>apply_letterbox\<close> and \<open>apply_stretch\<close>
  called with a null image or an empty one (\<open>img.size == 0\<close>) return that same image and
  the original record list, after logging an error; they do not raise.
\<close>

theorem transforms_empty_image:
  assumes "img = None \<or> (\<exists>a. img = Some a \<and> nd_size a = 0)"
  shows "apply_letterbox B img objects new_w new_h color interpolation =
           (Inr (img, objects), [(ERROR, Invalid_input_image)])
         \<and> apply_stretch B img objects new_w new_h interpolation =
           (Inr (img, objects), [(ERROR, Invalid_input_image)])"
  using assms by (auto simp: apply_letterbox_def apply_stretch_def)

theorem transforms_empty_image_witness:
  "nd_size example_empty_image = 0 \<and>
   apply_letterbox example_backend (Some example_empty_image) [example_car] 200 200 (114, 114, 114) 1 =
     (Inr (Some example_empty_image, [example_car]), [(ERROR, Invalid_input_image)]) \<and>
   apply_stretch example_backend (Some example_empty_image) [example_car] 200 200 1 =
     (Inr (Some example_empty_image, [example_car]), [(ERROR, Invalid_input_image)]) \<and>
   apply_letterbox example_backend None [example_car] 200 200 (114, 114, 114) 1 =
     (Inr (None, [example_car]), [(ERROR, Invalid_input_image)])"
proof -
  have e: "nd_size example_empty_image = 0"
    by (simp add: nd_size_def example_empty_image_def)
  then have h: "Some example_empty_image = None \<or> (\<exists>a. Some example_empty_image = Some a \<and> nd_size a = 0)"
    by simp
  have n: "(None :: ndarray option) = None \<or> (\<exists>a. (None :: ndarray option) = Some a \<and> nd_size a = 0)"
    by simp
  show ?thesis
    using e transforms_empty_image [OF h, of example_backend "[example_car]" 200 200 "(114, 114, 114)" 1]
      transforms_empty_image [OF n, of example_backend "[example_car]" 200 200 "(114, 114, 114)" 1]
    by simp
qed



















section \<open>Properties of \<open>load_kitti_labels\<close>\<close>














lemma parse_short_line: "parse_line example_short_line = None"
  by code_simp

lemma parse_bad_alpha_line: "parse_line example_bad_alpha_line = None"
  by code_simp

lemma parse_good_line_Some: "parse_line example_good_line \<noteq> None"
  by code_simp

lemma py_float_abc: "py_float ''abc'' = Inl ValueError"
  by code_simp


lemma is_linebreak_LF: "is_linebreak (CHR 0x0A)"
  by (simp add: is_linebreak_def)

lemma is_linebreak_CR: "is_linebreak (CHR 0x0D)"
  by (simp add: is_linebreak_def)

lemma splitlines_from_line:
  "list_all (\<lambda>c. \<not> is_linebreak c) l \<Longrightarrow>
   splitlines_from cur (l @ CHR 0x0A # rest) = (cur @ l) # splitlines_from [] rest"
proof (induction l arbitrary: cur)
  case Nil
  show ?case by (cases rest) (simp_all add: is_linebreak_LF)
next
  case (Cons c l)
  then have c: "\<not> is_linebreak c" and l: "list_all (\<lambda>c. \<not> is_linebreak c) l" by simp_all
  from c have "c \<noteq> CHR 0x0D" using is_linebreak_CR by blast
  moreover obtain d ds where "l @ CHR 0x0A # rest = d # ds" by (cases l) simp_all
  ultimately show ?case using c Cons.IH [OF l, of "cur @ [c]"] by simp
qed

lemma str_splitlines_unlines:
  "list_all (\<lambda>l. list_all (\<lambda>c. \<not> is_linebreak c) l) ls \<Longrightarrow>
   str_splitlines (concat (map (\<lambda>l. l @ [CHR 0x0A]) ls)) = ls"
  unfolding str_splitlines_def
  by (induction ls) (simp_all add: splitlines_from_line)

lemma splitlines_example_file: "str_splitlines example_file = example_lines"
proof -
  have "list_all (\<lambda>c. \<not> is_linebreak c) example_good_line"
       "list_all (\<lambda>c. \<not> is_linebreak c) example_short_line"
       "list_all (\<lambda>c. \<not> is_linebreak c) example_bad_alpha_line"
    by code_simp+
  then have "list_all (\<lambda>l. list_all (\<lambda>c. \<not> is_linebreak c) l) example_lines"
    by (simp add: example_lines_def list_all_iff)
  then show ?thesis unfolding example_file_def by (rule str_splitlines_unlines)
qed

lemma map_filter_replicate_Some: "f x = Some y \<Longrightarrow> List.map_filter f (replicate n x) = replicate n y"
  by (induction n) simp_all

lemma t8: "length (List.map_filter parse_line (str_splitlines example_file)) = 18"
proof -
  obtain obj where "parse_line example_good_line = Some obj" using parse_good_line_Some by blast
  then show ?thesis
    by (simp add: splitlines_example_file example_lines_def map_filter_append map_filter_replicate_Some parse_short_line parse_bad_alpha_line)
qed










section \<open>Properties of \<open>write_kitti_labels\<close>\<close>












lemma floor_rat_numeral_div:
  "\<lfloor>numeral a / numeral b :: rat\<rfloor> = numeral a div numeral b"
  using floor_divide_of_int_eq [of "numeral a" "numeral b", where ?'a = rat] by simp

lemma floor_rat_one_div: "\<lfloor>1 / numeral b :: rat\<rfloor> = 1 div numeral b"
  using floor_divide_of_int_eq [of 1 "numeral b", where ?'a = rat] by simp

lemmas format_eval = round_half_even_def Let_def floor_rat_numeral_div floor_rat_one_div
  show_nat.simps digit_char_def show_int_def






end
